theory Spec2Isabelle
  imports Complex_Main "HOL-Library.Word"
begin

section \<open>Bytes and fixed-width little-endian decoding\<close>

text \<open>
  The backend (\<^verbatim>\<open>src/backend/grid_backend.py\<close>) works on Python \<^verbatim>\<open>bytes\<close> and
  \<^verbatim>\<open>bytearray\<close> values. A byte is an 8-bit word, a buffer is a list of bytes.
  Python integers are unbounded, so every decoded integer is a \<open>nat\<close>.
\<close>

type_synonym byte = "8 word"

text \<open>A Python slice \<^verbatim>\<open>data[i:j]\<close> with \<open>0 \<le> i\<close>: it never raises, it is cut at the end.\<close>

definition py_slice :: "byte list \<Rightarrow> nat \<Rightarrow> nat \<Rightarrow> byte list" where
  "py_slice data i j = take (j - i) (drop i data)"

text \<open>An unsigned little-endian integer of any width (\<^verbatim>\<open>I\<close> and \<^verbatim>\<open>Q\<close> of \<^verbatim>\<open>struct\<close>).\<close>

fun le_nat :: "byte list \<Rightarrow> nat" where
  "le_nat [] = 0"
| "le_nat (b # bs) = unat b + 256 * le_nat bs"

text \<open>\<^verbatim>\<open>MAGIC_WORD\<close>, \<^verbatim>\<open>HEADER_STRUCT = struct.Struct('<Q8I')\<close> and its size.\<close>

definition MAGIC_WORD :: "byte list" where
  "MAGIC_WORD = [0x02, 0x01, 0x04, 0x03, 0x06, 0x05, 0x08, 0x07]"

definition HEADER_LEN :: nat where
  "HEADER_LEN = 40"

record frame_header =
  magic :: nat
  version :: nat
  totalPacketLen :: nat
  platform :: nat
  frameNum :: nat
  timeCPUCycles :: nat
  numDetectedObj :: nat
  numTLVs :: nat
  subFrameNum :: nat

text \<open>
  \<^verbatim>\<open>struct.unpack\<close> of the format \<^verbatim>\<open>Q8I\<close>: it raises \<^verbatim>\<open>struct.error\<close> (here \<open>None\<close>)
  unless it is given exactly 40 bytes.
\<close>

definition unpack_header :: "byte list \<Rightarrow> frame_header option" where
  "unpack_header d =
     (if length d \<noteq> 40 then None
      else Some \<lparr>magic = le_nat (py_slice d 0 8),
                 version = le_nat (py_slice d 8 12),
                 totalPacketLen = le_nat (py_slice d 12 16),
                 platform = le_nat (py_slice d 16 20),
                 frameNum = le_nat (py_slice d 20 24),
                 timeCPUCycles = le_nat (py_slice d 24 28),
                 numDetectedObj = le_nat (py_slice d 28 32),
                 numTLVs = le_nat (py_slice d 32 36),
                 subFrameNum = le_nat (py_slice d 36 40)\<rparr>)"

section \<open>The frame synchronizer: the loop of \<^verbatim>\<open>_read_from_serial_port\<close>\<close>

text \<open>
  \<^verbatim>\<open>bytearray.find(sub)\<close>: the index of the first occurrence of \<open>sub\<close>, or \<open>-1\<close>
  (here \<open>None\<close>) when there is none.
\<close>

fun find_bytes :: "byte list \<Rightarrow> byte list \<Rightarrow> nat option" where
  "find_bytes sub [] = (if sub = [] then Some 0 else None)"
| "find_bytes sub (b # bs) =
     (if take (length sub) (b # bs) = sub then Some 0
      else map_option Suc (find_bytes sub bs))"

text \<open>
  What one pass through the body of the \<^verbatim>\<open>while self.running\<close> loop does after the
  read: every \<^verbatim>\<open>continue\<close> of the source is one constructor, the fall-through to
  \<^verbatim>\<open>parse_standard_frame(frame_bytes)\<close> is \<open>Extracted\<close>.
\<close>

datatype iter_result =
    NoMagic
  | ShortHeader
  | StructError
  | BadMagic
  | ShortFrame
  | Extracted "byte list"

definition sync_iter :: "byte list \<Rightarrow> byte list \<times> iter_result" where
  "sync_iter buffer =
     (case find_bytes MAGIC_WORD buffer of
        None \<Rightarrow>
          ((if length buffer > 1024 then drop (length buffer - 1024) buffer else buffer),
           NoMagic)
      | Some magic_idx \<Rightarrow>
          (let buffer = drop magic_idx buffer in
           if length buffer < HEADER_LEN then (buffer, ShortHeader)
           else
             (case unpack_header (take HEADER_LEN buffer) of
                None \<Rightarrow> (buffer, StructError)
              | Some h \<Rightarrow>
                  if magic h \<noteq> 0x0708050603040102 then (drop 1 buffer, BadMagic)
                  else if length buffer < totalPacketLen h then (buffer, ShortFrame)
                  else (drop (totalPacketLen h) buffer,
                        Extracted (take (totalPacketLen h) buffer)))))"

text \<open>
  The loop itself. The serial port is the list of deliveries: the \<open>k\<close>-th element is
  what \<^verbatim>\<open>ser.read(ser.in_waiting)\<close> returns in the \<open>k\<close>-th pass (\<open>[]\<close> when
  \<^verbatim>\<open>in_waiting\<close> is 0 and nothing is read). The result is the frames handed to
  \<^verbatim>\<open>parse_standard_frame\<close>, in order.
\<close>

fun read_loop :: "byte list \<Rightarrow> byte list list \<Rightarrow> byte list list" where
  "read_loop buffer [] = []"
| "read_loop buffer (chunk # rest) =
     (case sync_iter (buffer @ chunk) of
        (buffer', Extracted frame_bytes) \<Rightarrow> frame_bytes # read_loop buffer' rest
      | (buffer', _) \<Rightarrow> read_loop buffer' rest)"

section \<open>Floating-point values\<close>

text \<open>
  A decoded \<^verbatim>\<open>f\<close> field is an IEEE 754 single, stored in a \<^verbatim>\<open>float64\<close> array. A
  value is a finite number, an infinity or a NaN. Finite values are exact reals: the
  rounding (and the overflow) of an arithmetic result is not modelled, and the two zeros
  are one. The grid bounds come from the spin boxes of the front end and are finite.
\<close>

datatype pyfloat = Fin real | PInf | NInf | NaN

text \<open>The value of the 32 bits of a single, read as an unsigned integer.\<close>

definition f32_decode :: "nat \<Rightarrow> pyfloat" where
  "f32_decode bits =
     (let s = bits div 2 ^ 31; e = (bits div 2 ^ 23) mod 256; m = bits mod 2 ^ 23 in
      if e = 255 then (if m = 0 then (if s = 0 then PInf else NInf) else NaN)
      else
        (let a = (if e = 0 then real m / 2 ^ 149
                  else if 150 \<le> e then real (2 ^ 23 + m) * 2 ^ (e - 150)
                  else real (2 ^ 23 + m) / 2 ^ (150 - e))
         in Fin (if s = 0 then a else - a)))"

text \<open>Comparisons with a finite number: every comparison with a NaN is false.\<close>

fun flt :: "pyfloat \<Rightarrow> real \<Rightarrow> bool" where
  "flt (Fin a) c = (a < c)"
| "flt PInf c = False"
| "flt NInf c = True"
| "flt NaN c = False"

fun fgt :: "pyfloat \<Rightarrow> real \<Rightarrow> bool" where
  "fgt (Fin a) c = (a > c)"
| "fgt PInf c = True"
| "fgt NInf c = False"
| "fgt NaN c = False"

fun fge :: "pyfloat \<Rightarrow> real \<Rightarrow> bool" where
  "fge (Fin a) c = (a \<ge> c)"
| "fge PInf c = True"
| "fge NInf c = False"
| "fge NaN c = False"

text \<open>
  Arithmetic of a \<^verbatim>\<open>numpy.float64\<close> with a finite number. A division by zero does not
  raise there: it gives an infinity, or a NaN for \<open>0 / 0\<close>.
\<close>

fun fsub :: "pyfloat \<Rightarrow> real \<Rightarrow> pyfloat" where
  "fsub (Fin a) c = Fin (a - c)"
| "fsub PInf c = PInf"
| "fsub NInf c = NInf"
| "fsub NaN c = NaN"

fun fdiv :: "pyfloat \<Rightarrow> real \<Rightarrow> pyfloat" where
  "fdiv (Fin a) c =
     (if c = 0 then (if a > 0 then PInf else if a < 0 then NInf else NaN)
      else Fin (a / c))"
| "fdiv PInf c = (if c \<ge> 0 then PInf else NInf)"
| "fdiv NInf c = (if c \<ge> 0 then NInf else PInf)"
| "fdiv NaN c = NaN"

fun fmul :: "pyfloat \<Rightarrow> real \<Rightarrow> pyfloat" where
  "fmul (Fin a) c = Fin (a * c)"
| "fmul PInf c = (if c > 0 then PInf else if c < 0 then NInf else NaN)"
| "fmul NInf c = (if c > 0 then NInf else if c < 0 then PInf else NaN)"
| "fmul NaN c = NaN"

text \<open>
  The builtins \<^verbatim>\<open>min(a, x)\<close> and \<^verbatim>\<open>max(a, x)\<close> with a finite first argument: the
  second argument wins only when it compares smaller (greater).
\<close>

definition py_min :: "real \<Rightarrow> pyfloat \<Rightarrow> pyfloat" where
  "py_min a x = (if flt x a then x else Fin a)"

definition py_max :: "real \<Rightarrow> pyfloat \<Rightarrow> pyfloat" where
  "py_max a x = (if fgt x a then x else Fin a)"

text \<open>\<^verbatim>\<open>int(r)\<close> of a float truncates towards zero.\<close>

definition py_int :: "real \<Rightarrow> int" where
  "py_int r = (if r \<ge> 0 then \<lfloor>r\<rfloor> else \<lceil>r\<rceil>)"

section \<open>The track record decoder: \<^verbatim>\<open>parse_track_tlv\<close>\<close>

text \<open>
  The columns of a row of \<^verbatim>\<open>targets\<close> that the decoder writes (columns 0 to 11;
  columns 12 to 15 are never written).
\<close>

record track =
  tid :: nat
  posX :: pyfloat
  posY :: pyfloat
  posZ :: pyfloat
  velX :: pyfloat
  velY :: pyfloat
  velZ :: pyfloat
  accX :: pyfloat
  accY :: pyfloat
  accZ :: pyfloat
  g :: pyfloat
  confidence :: pyfloat

text \<open>
  \<^verbatim>\<open>struct.unpack('I27f', data)\<close>: \<open>None\<close> for \<^verbatim>\<open>struct.error\<close>, raised unless
  \<open>data\<close> has exactly 112 bytes. \<open>f32_at d k\<close> is \<^verbatim>\<open>targetData[k]\<close> for \<open>1 \<le> k\<close>.
\<close>

definition targetSize :: nat where
  "targetSize = 112"

definition f32_at :: "byte list \<Rightarrow> nat \<Rightarrow> pyfloat" where
  "f32_at d k = f32_decode (le_nat (py_slice d (4 * k) (4 * k + 4)))"

definition unpack_target :: "byte list \<Rightarrow> track option" where
  "unpack_target d =
     (if length d \<noteq> 112 then None
      else Some \<lparr>tid = le_nat (py_slice d 0 4),
                 posX = f32_at d 1, posY = f32_at d 2, posZ = f32_at d 3,
                 velX = f32_at d 4, velY = f32_at d 5, velZ = f32_at d 6,
                 accX = f32_at d 7, accY = f32_at d 8, accZ = f32_at d 9,
                 g = f32_at d 26, confidence = f32_at d 27\<rparr>)"

text \<open>
  The \<^verbatim>\<open>for i in range(numDetectedTargets)\<close> loop. \<open>rows\<close> is the rows of
  \<^verbatim>\<open>targets\<close> written so far; the flag is \<open>False\<close> when the loop left through the
  \<^verbatim>\<open>except\<close> branch.
\<close>

fun parse_rows :: "nat \<Rightarrow> byte list \<Rightarrow> track list \<Rightarrow> bool \<times> track list" where
  "parse_rows 0 tlvData rows = (True, rows)"
| "parse_rows (Suc n) tlvData rows =
     (case unpack_target (take targetSize tlvData) of
        None \<Rightarrow> (False, rows)
      | Some targetData \<Rightarrow> parse_rows n (drop targetSize tlvData) (rows @ [targetData]))"

text \<open>
  \<^verbatim>\<open>parse_track_tlv\<close> returns \<^verbatim>\<open>numDetectedTargets, targets\<close>, and \<^verbatim>\<open>0, targets\<close>
  from the \<^verbatim>\<open>except\<close> branch. The array comes from \<^verbatim>\<open>np.empty\<close>: the second
  component here is its written rows, the rows after them hold no defined value.
  \<^verbatim>\<open>int(tlvLength/targetSize)\<close> is the integer quotient for every 32-bit length.
\<close>

definition parse_track_tlv :: "byte list \<Rightarrow> nat \<Rightarrow> nat \<times> track list" where
  "parse_track_tlv tlvData tlvLength =
     (let numDetectedTargets = tlvLength div targetSize in
      case parse_rows numDetectedTargets tlvData [] of
        (True, targets) \<Rightarrow> (numDetectedTargets, targets)
      | (False, targets) \<Rightarrow> (0, targets))"

section \<open>The grid: \<^verbatim>\<open>create_grid\<close> and \<^verbatim>\<open>rescale_and_emit_points\<close>\<close>

text \<open>The fields of \<^verbatim>\<open>GridBackend\<close> that the pipeline reads; \<^verbatim>\<open>__init__\<close> sets them to 0.\<close>

record grid_backend =
  x_min :: real
  x_max :: real
  y_min :: real
  y_max :: real
  nx :: int
  ny :: int

definition init_backend :: grid_backend where
  "init_backend = \<lparr>x_min = 0, x_max = 0, y_min = 0, y_max = 0, nx = 0, ny = 0\<rparr>"

text \<open>The request: the dictionary that \<^verbatim>\<open>on_create_grid\<close> builds, with its six keys.\<close>

record grid_cfg =
  cfg_x_min :: real
  cfg_x_max :: real
  cfg_y_min :: real
  cfg_y_max :: real
  cfg_dx :: real
  cfg_dy :: real

text \<open>
  How \<^verbatim>\<open>create_grid\<close> ends: one of its three early returns, or
  \<^verbatim>\<open>grid_ready.emit(grid)\<close> with the shape \<open>(ny, nx)\<close> of the zero grid.
\<close>

datatype grid_outcome =
    InvalidCellSize
  | InvalidRange
  | InvalidGridSize
  | GridReady int int

definition create_grid :: "grid_backend \<Rightarrow> grid_cfg \<Rightarrow> grid_backend \<times> grid_outcome" where
  "create_grid self cfg =
     (let self = self\<lparr>x_min := cfg_x_min cfg, x_max := cfg_x_max cfg,
                      y_min := cfg_y_min cfg, y_max := cfg_y_max cfg\<rparr>;
          dx = cfg_dx cfg;
          dy = cfg_dy cfg
      in
        if dx \<le> 0 \<or> dy \<le> 0 then (self, InvalidCellSize)
        else if x_max self \<le> x_min self \<or> y_max self \<le> y_min self
          then (self, InvalidRange)
        else
          (let self = self\<lparr>nx := py_int ((x_max self - x_min self) / dx),
                           ny := py_int ((y_max self - y_min self) / dy)\<rparr>
           in if nx self \<le> 0 \<or> ny self \<le> 0 then (self, InvalidGridSize)
              else (self, GridReady (ny self) (nx self))))"

text \<open>One element of the list given to \<^verbatim>\<open>radar_points_ready\<close>.\<close>

record rescaled_point =
  pt_x :: pyfloat
  pt_y :: pyfloat
  pt_id :: nat
  pt_x_real :: pyfloat
  pt_y_real :: pyfloat

text \<open>The body of the \<^verbatim>\<open>for i_t in range(len(targets))\<close> loop.\<close>

definition rescale_target :: "grid_backend \<Rightarrow> track \<Rightarrow> rescaled_point" where
  "rescale_target self t =
     (let target_id = tid t;
          x_m = posX t;
          y_m = posY t;
          x_grid = fmul (fdiv (fsub x_m (x_min self)) (x_max self - x_min self))
                     (real_of_int (nx self - 1));
          y_grid = fmul (fdiv (fsub y_m (y_min self)) (y_max self - y_min self))
                     (real_of_int (ny self - 1));
          x_grid = py_max 0 (py_min (real_of_int (nx self - 1)) x_grid);
          y_grid = py_max 0 (py_min (real_of_int (ny self - 1)) y_grid)
      in \<lparr>pt_x = x_grid, pt_y = y_grid, pt_id = target_id,
           pt_x_real = x_m, pt_y_real = y_m\<rparr>)"

text \<open>The confidence filter \<^verbatim>\<open>targets[targets[:, 11] >= 0.5]\<close>.\<close>

definition confidence_filter :: "track list \<Rightarrow> track list" where
  "confidence_filter targets = filter (\<lambda>t. fge (confidence t) (1 / 2)) targets"

text \<open>
  \<^verbatim>\<open>rescale_and_emit_points\<close>: \<open>None\<close> for each of its three silent returns,
  \<open>Some points\<close> for \<^verbatim>\<open>radar_points_ready.emit(rescaled_points)\<close>.
\<close>

definition rescale_and_emit_points ::
    "grid_backend \<Rightarrow> track list \<Rightarrow> rescaled_point list option" where
  "rescale_and_emit_points self targets =
     (if targets = [] then None
      else
        (let targets = confidence_filter targets in
         if targets = [] then None
         else if nx self = 0 \<or> ny self = 0 then None
         else Some (map (rescale_target self) targets)))"

section \<open>The TLV dispatcher: \<^verbatim>\<open>parse_standard_frame\<close>\<close>

text \<open>
  What a frame makes the backend do, in order: a batch of points sent to the front end,
  or one of the two \<^verbatim>\<open>log.error\<close> calls (\<open>TlvError (i + 1) numTLVs\<close> is the message
  of the \<^verbatim>\<open>except\<close> branch of the TLV loop).
\<close>

datatype event =
    PointsReady "rescaled_point list"
  | HeaderError
  | TlvError nat nat

text \<open>\<^verbatim>\<open>struct.unpack('2I', data)\<close>: exactly 8 bytes, or \<^verbatim>\<open>struct.error\<close>.\<close>

definition tlvHeaderLength :: nat where
  "tlvHeaderLength = 8"

definition tlv_header_decode :: "byte list \<Rightarrow> (nat \<times> nat) option" where
  "tlv_header_decode data =
     (if length data \<noteq> 8 then None
      else Some (le_nat (py_slice data 0 4), le_nat (py_slice data 4 8)))"

text \<open>The \<^verbatim>\<open>if\<close>/\<^verbatim>\<open>elif\<close> chain on \<^verbatim>\<open>tlvType\<close>: only 1010 does anything.\<close>

definition dispatch_tlv :: "grid_backend \<Rightarrow> nat \<Rightarrow> byte list \<Rightarrow> nat \<Rightarrow> event list" where
  "dispatch_tlv self tlvType tlvPayload tlvLength =
     (if tlvType = 1020 then []
      else if tlvType = 1010 then
        (case parse_track_tlv tlvPayload tlvLength of
           (numDetectedTargets, targets) \<Rightarrow>
             if numDetectedTargets > 0 then
               (case rescale_and_emit_points self targets of
                  None \<Rightarrow> []
                | Some points \<Rightarrow> [PointsReady points])
             else [])
      else [])"

text \<open>
  The \<^verbatim>\<open>for i in range(numTLVs)\<close> loop, with \<open>n\<close> passes left: a \<^verbatim>\<open>struct.error\<close>
  of the header decode is logged and ends the loop.
\<close>

fun tlv_loop ::
    "grid_backend \<Rightarrow> byte list \<Rightarrow> nat \<Rightarrow> nat \<Rightarrow> nat \<Rightarrow> nat \<Rightarrow> event list" where
  "tlv_loop self frameData count offset i 0 = []"
| "tlv_loop self frameData count offset i (Suc n) =
     (case tlv_header_decode (py_slice frameData offset (offset + tlvHeaderLength)) of
        None \<Rightarrow> [TlvError (i + 1) count]
      | Some (tlvType, tlvLength) \<Rightarrow>
          (let tlvPayload = py_slice frameData (offset + tlvHeaderLength)
                              (offset + tlvHeaderLength + tlvLength)
           in dispatch_tlv self tlvType tlvPayload tlvLength
              @ tlv_loop self frameData count (offset + tlvHeaderLength + tlvLength)
                  (i + 1) n))"

definition parse_standard_frame :: "grid_backend \<Rightarrow> byte list \<Rightarrow> event list" where
  "parse_standard_frame self frameData =
     (case unpack_header (py_slice frameData 0 40) of
        None \<Rightarrow> [HeaderError]
      | Some h \<Rightarrow> tlv_loop self frameData (numTLVs h) 40 0 (numTLVs h))"

text \<open>
  \<^verbatim>\<open>_read_from_serial_port\<close> as a whole: every extracted frame goes through
  \<^verbatim>\<open>parse_standard_frame\<close>, in the order of extraction.
\<close>

definition read_from_serial_port ::
    "grid_backend \<Rightarrow> byte list list \<Rightarrow> event list" where
  "read_from_serial_port self deliveries =
     concat (map (parse_standard_frame self) (read_loop [] deliveries))"

section \<open>Well-formed frames\<close>

text \<open>
  The frame header invariant of the data model: the magic field is the marker, and
  \<^verbatim>\<open>totalPacketLen\<close> is the byte length of the whole frame, at least the header.
\<close>

definition valid_frame :: "byte list \<Rightarrow> bool" where
  "valid_frame f =
     (take 8 f = MAGIC_WORD \<and> HEADER_LEN \<le> length f \<and> le_nat (py_slice f 12 16) = length f)"

section \<open>The records of a track payload\<close>

text \<open>
  What pass \<open>j\<close> of the loop of \<^verbatim>\<open>parse_track_tlv\<close> hands to \<^verbatim>\<open>struct.unpack\<close>, said
  on the payload as it was given: the loop drops 112 bytes after each record, so pass
  \<open>j\<close> reads the bytes from \<open>112 * j\<close>.
\<close>

definition record_at :: "byte list \<Rightarrow> nat \<Rightarrow> track option" where
  "record_at tlvData j =
     unpack_target (py_slice tlvData (targetSize * j) (targetSize * j + targetSize))"

section \<open>Concrete inputs\<close>

text \<open>
  One track record of 112 bytes: id 7, then the singles 3.0 (\<open>0x40400000\<close>) and 50.0
  (\<open>0x42480000\<close>) for \<open>posX\<close> and \<open>posY\<close>, 24 singles that are 0, and the confidence
  0.9 (\<open>0x3F666666\<close>, the single nearest to 0.9) in the last field.
\<close>

definition example_record :: "byte list" where
  "example_record =
     [7, 0, 0, 0] @ [0, 0, 0x40, 0x40] @ [0, 0, 0x48, 0x42] @ replicate 96 0
     @ [0x66, 0x66, 0x66, 0x3F]"

definition example_track :: track where
  "example_track = \<lparr>tid = 7, posX = Fin 3, posY = Fin 50, posZ = Fin 0,
     velX = Fin 0, velY = Fin 0, velZ = Fin 0, accX = Fin 0, accY = Fin 0, accZ = Fin 0,
     g = Fin 0, confidence = Fin (7549747 / 8388608)\<rparr>"

text \<open>
  A header of 40 bytes: the marker, version 0, \<^verbatim>\<open>totalPacketLen\<close> 160, four fields that
  are 0, \<^verbatim>\<open>numTLVs\<close> 1 and \<^verbatim>\<open>subFrameNum\<close> 0. \<open>example_frame\<close> follows it with one TLV
  of type 1010 (\<open>0x03F2\<close>) and length 112 holding the record; \<open>overrun_frame\<close> is the
  same 160 bytes but for the TLV length, which says 113.
\<close>

definition example_header :: "byte list" where
  "example_header =
     MAGIC_WORD @ [0, 0, 0, 0] @ [160, 0, 0, 0] @ replicate 16 0 @ [1, 0, 0, 0] @ [0, 0, 0, 0]"

definition example_frame :: "byte list" where
  "example_frame = example_header @ [0xF2, 0x03, 0, 0] @ [112, 0, 0, 0] @ example_record"


text \<open>The default request of the front end, and the state it leaves when accepted.\<close>

definition example_cfg :: grid_cfg where
  "example_cfg = \<lparr>cfg_x_min = -12, cfg_x_max = 12, cfg_y_min = 0, cfg_y_max = 120,
     cfg_dx = 1, cfg_dy = 5\<rparr>"

definition example_grid :: grid_backend where
  "example_grid = \<lparr>x_min = -12, x_max = 12, y_min = 0, y_max = 120, nx = 24, ny = 24\<rparr>"

text \<open>A request with cell size 0 and other bounds for \<open>x\<close>.\<close>

definition invalid_cfg :: grid_cfg where
  "invalid_cfg = \<lparr>cfg_x_min = -5, cfg_x_max = 5, cfg_y_min = 0, cfg_y_max = 120,
     cfg_dx = 0, cfg_dy = 5\<rparr>"

text \<open>
  Forty bytes that begin with the marker pattern and are no frame header (the four bytes
  where a header has \<^verbatim>\<open>totalPacketLen\<close> read 44), and a well-formed frame of 40 bytes
  that is only a header (\<^verbatim>\<open>totalPacketLen\<close> 40, no TLV).
\<close>

definition false_marker_block :: "byte list" where
  "false_marker_block = MAGIC_WORD @ [0, 0, 0, 0] @ [44, 0, 0, 0] @ replicate 24 0"

definition header_only_frame :: "byte list" where
  "header_only_frame = MAGIC_WORD @ [0, 0, 0, 0] @ [40, 0, 0, 0] @ replicate 24 0"

section \<open>Facts about the synchronizer\<close>

lemma le_nat_MAGIC_WORD: "le_nat MAGIC_WORD = 0x0708050603040102"
  by (simp add: MAGIC_WORD_def)

lemma length_MAGIC_WORD: "length MAGIC_WORD = 8"
  by (simp add: MAGIC_WORD_def)

lemma le_nat_zeros: "le_nat (replicate n 0) = 0"
  by (induction n) simp_all

lemma find_bytes_Some_take:
  "find_bytes sub buf = Some i \<Longrightarrow> take (length sub) (drop i buf) = sub"
proof (induction buf arbitrary: i)
  case Nil
  then show ?case by (simp split: if_splits)
next
  case (Cons b bs)
  show ?case
  proof (cases "take (length sub) (b # bs) = sub")
    case True
    with Cons.prems show ?thesis by simp
  next
    case False
    with Cons.prems obtain j where "find_bytes sub bs = Some j" "i = Suc j"
      by auto
    with Cons.IH show ?thesis by simp
  qed
qed

lemma find_bytes_prefix:
  "take (length sub) buf = sub \<Longrightarrow> find_bytes sub buf = Some 0"
  by (cases buf) auto

lemma find_bytes_first_byte_absent:
  "b0 \<notin> set buf \<Longrightarrow> find_bytes (b0 # sub) buf = None"
  by (induction buf) auto

lemma find_bytes_short:
  "length buf < length sub \<Longrightarrow> find_bytes sub buf = None"
  by (induction buf) auto

lemma py_slice_take:
  "j \<le> n \<Longrightarrow> py_slice (take n d) i j = py_slice d i j"
  by (simp add: py_slice_def drop_take min_def)

lemma sync_iter_at_marker:
  assumes "take 8 b = MAGIC_WORD"
  shows "sync_iter b =
     (if length b < 40 then (b, ShortHeader)
      else if length b < le_nat (py_slice b 12 16) then (b, ShortFrame)
      else (drop (le_nat (py_slice b 12 16)) b, Extracted (take (le_nat (py_slice b 12 16)) b)))"
proof -
  have f: "find_bytes MAGIC_WORD b = Some 0"
    using assms by (simp add: find_bytes_prefix length_MAGIC_WORD)
  show ?thesis
  proof (cases "length b < 40")
    case True
    then show ?thesis by (simp add: sync_iter_def f HEADER_LEN_def)
  next
    case False
    have m: "le_nat (py_slice (take 40 b) 0 8) = 0x0708050603040102"
      using assms by (simp add: py_slice_take) (simp add: py_slice_def le_nat_MAGIC_WORD)
    from False m show ?thesis
      by (simp add: sync_iter_def f HEADER_LEN_def unpack_header_def py_slice_take Let_def)
  qed
qed

lemma sync_iter_no_marker:
  "find_bytes MAGIC_WORD b = None \<Longrightarrow> length b \<le> 1024 \<Longrightarrow> sync_iter b = (b, NoMagic)"
  by (simp add: sync_iter_def)

lemma read_loop_idle:
  "find_bytes MAGIC_WORD b = None \<Longrightarrow> length b \<le> 1024 \<Longrightarrow> concat chunks = [] \<Longrightarrow>
   read_loop b chunks = []"
  by (induction chunks) (simp_all add: sync_iter_no_marker)

lemma py_slice_append:
  "j \<le> length b \<Longrightarrow> py_slice (b @ extra) i j = py_slice b i j"
  by (simp add: py_slice_def)

lemma zero_len_iter:
  assumes "take 8 buffer = MAGIC_WORD" "HEADER_LEN \<le> length buffer"
    "le_nat (py_slice buffer 12 16) = 0"
  shows "sync_iter (buffer @ extra) = (buffer @ extra, Extracted [])"
proof -
  have "take 8 (buffer @ extra) = MAGIC_WORD"
    using assms(1,2) by (simp add: HEADER_LEN_def)
  moreover have "le_nat (py_slice (buffer @ extra) 12 16) = 0"
    using assms(2,3) by (simp add: py_slice_append HEADER_LEN_def)
  ultimately show ?thesis
    using assms(2) by (simp add: sync_iter_at_marker HEADER_LEN_def)
qed

lemma zero_len_loop:
  assumes "take 8 buffer = MAGIC_WORD" "HEADER_LEN \<le> length buffer"
    "le_nat (py_slice buffer 12 16) = 0"
  shows "read_loop buffer deliveries = replicate (length deliveries) []"
  using assms
proof (induction deliveries arbitrary: buffer)
  case Nil
  then show ?case by simp
next
  case (Cons chunk rest)
  have s: "sync_iter (buffer @ chunk) = (buffer @ chunk, Extracted [])"
    using Cons.prems by (rule zero_len_iter)
  have "read_loop (buffer @ chunk) rest = replicate (length rest) []"
  proof (rule Cons.IH)
    show "take 8 (buffer @ chunk) = MAGIC_WORD"
      using Cons.prems(1,2) by (simp add: HEADER_LEN_def)
    show "HEADER_LEN \<le> length (buffer @ chunk)"
      using Cons.prems(2) by simp
    show "le_nat (py_slice (buffer @ chunk) 12 16) = 0"
      using Cons.prems(2,3) by (simp add: py_slice_append HEADER_LEN_def)
  qed
  with s show ?case by simp
qed

lemma partial_delivery_aux:
  assumes v: "valid_frame f"
  shows "buffer @ concat chunks = f \<Longrightarrow> buffer \<noteq> f \<Longrightarrow> read_loop buffer chunks = [f]"
proof (induction chunks arbitrary: buffer)
  case Nil
  then show ?case by simp
next
  case (Cons c rest)
  let ?b = "buffer @ c"
  have pre: "?b @ concat rest = f" using Cons.prems(1) by simp
  have m: "take 8 f = MAGIC_WORD" and l: "40 \<le> length f"
    and tl: "le_nat (py_slice f 12 16) = length f"
    using v by (simp_all add: valid_frame_def HEADER_LEN_def)
  show ?case
  proof (cases "?b = f")
    case True
    have "sync_iter f = ([], Extracted f)"
      using m l tl by (simp add: sync_iter_at_marker)
    moreover have "concat rest = []" using pre True by simp
    then have "read_loop [] rest = []"
      by (intro read_loop_idle) (simp_all add: MAGIC_WORD_def)
    ultimately show ?thesis using True by simp
  next
    case False
    have lt: "length ?b < length f"
    proof -
      have "length ?b \<le> length f" using pre by (metis length_append le_add1)
      moreover have "length ?b \<noteq> length f"
      proof
        assume "length ?b = length f"
        with pre have "concat rest = []" by (metis append_eq_append_conv append_Nil2 length_0_conv length_append add_cancel_right_right)
        with pre False show False by simp
      qed
      ultimately show ?thesis by simp
    qed
    have st: "\<exists>r. sync_iter ?b = (?b, r) \<and> (\<forall>fr. r \<noteq> Extracted fr)"
    proof (cases "length ?b < 8")
      case True
      then have "find_bytes MAGIC_WORD ?b = None"
        by (intro find_bytes_short) (simp add: length_MAGIC_WORD)
      with True show ?thesis by (simp add: sync_iter_no_marker)
    next
      case ge8: False
      have tb: "take 8 ?b = MAGIC_WORD"
      proof -
        have "take 8 f = take 8 ?b" using ge8 pre by (metis take_append not_less diff_is_0_eq take_0 append_Nil2)
        with m show ?thesis by simp
      qed
      show ?thesis
      proof (cases "length ?b < 40")
        case True
        with tb show ?thesis by (simp add: sync_iter_at_marker)
      next
        case ge40: False
        have "py_slice ?b 12 16 = py_slice f 12 16"
          using ge40 pre py_slice_append [of 16 ?b "concat rest" 12] by simp
        with tl lt have "length ?b < le_nat (py_slice ?b 12 16)" by simp
        with tb ge40 show ?thesis by (simp add: sync_iter_at_marker)
      qed
    qed
    then obtain r where r: "sync_iter ?b = (?b, r)" "\<And>fr. r \<noteq> Extracted fr" by blast
    have "read_loop ?b rest = [f]" using pre False by (rule Cons.IH)
    with r show ?thesis by (cases r) auto
  qed
qed

section \<open>The magic check cannot fail\<close>

text \<open>
  Claim C6. Whenever \<^verbatim>\<open>find\<close> locates the marker and at least 40 bytes follow, the
  64-bit little-endian value decoded from the first 8 bytes of the header is
  \<open>0x0708050603040102\<close>: a pass of the loop never takes the branch that drops one
  byte and retries.
\<close>

theorem magic_mismatch_unreachable:
  assumes "find_bytes MAGIC_WORD buffer = Some magic_idx"
    and "HEADER_LEN \<le> length (drop magic_idx buffer)"
  shows "map_option magic (unpack_header (take HEADER_LEN (drop magic_idx buffer)))
           = Some 0x0708050603040102
         \<and> snd (sync_iter buffer) \<noteq> BadMagic"
proof -
  let ?b = "drop magic_idx buffer"
  have t: "take 8 ?b = MAGIC_WORD"
    using find_bytes_Some_take [OF assms(1)] by (simp add: length_MAGIC_WORD)
  have "le_nat (py_slice (take 40 ?b) 0 8) = 0x0708050603040102"
    using t by (simp add: py_slice_take) (simp add: py_slice_def le_nat_MAGIC_WORD)
  with assms(2) have a: "map_option magic (unpack_header (take HEADER_LEN ?b))
      = Some 0x0708050603040102"
    by (simp add: unpack_header_def HEADER_LEN_def)
  have "snd (sync_iter buffer) \<noteq> BadMagic"
    using assms a
    by (auto simp add: sync_iter_def Let_def split: option.splits)
  with a show ?thesis by simp
qed

theorem magic_mismatch_unreachable_witness:
  "snd (sync_iter (0xFF # MAGIC_WORD @ replicate 32 0)) \<noteq> BadMagic
   \<and> find_bytes MAGIC_WORD (0xFF # MAGIC_WORD @ replicate 32 0) = Some 1"
proof -
  have f: "find_bytes MAGIC_WORD (0xFF # MAGIC_WORD @ replicate 32 0) = Some 1"
    by (simp add: MAGIC_WORD_def)
  have l: "HEADER_LEN \<le> length (drop 1 (0xFF # MAGIC_WORD @ replicate 32 (0::byte)))"
    by (simp add: MAGIC_WORD_def HEADER_LEN_def)
  from magic_mismatch_unreachable [OF f l] f show ?thesis by simp
qed

section \<open>A header that declares length 0\<close>

text \<open>
  Claim C7. The declared length is never compared with the header length. When the
  buffer starts with the marker, holds a whole header and that header declares
  \<^verbatim>\<open>totalPacketLen = 0\<close>, a pass extracts the empty frame and leaves the buffer as it
  is, whatever has been appended; so every frame the loop ever extracts is empty, and an
  empty frame is rejected by the header decode of \<^verbatim>\<open>parse_standard_frame\<close>.
\<close>

theorem zero_length_header_no_progress:
  assumes "take 8 buffer = MAGIC_WORD"
    and "HEADER_LEN \<le> length buffer"
    and "le_nat (py_slice buffer 12 16) = 0"
  shows "sync_iter (buffer @ extra) = (buffer @ extra, Extracted [])
         \<and> read_loop buffer deliveries = replicate (length deliveries) []
         \<and> parse_standard_frame self [] = [HeaderError]"
proof -
  have "parse_standard_frame self [] = [HeaderError]"
    by (simp add: parse_standard_frame_def unpack_header_def py_slice_def)
  with zero_len_iter [OF assms] zero_len_loop [OF assms] show ?thesis
    by simp
qed

theorem zero_length_header_no_progress_witness:
  "read_loop (MAGIC_WORD @ replicate 32 0) [[1, 2], [], MAGIC_WORD] = [[], [], []]"
proof -
  have a: "take 8 (MAGIC_WORD @ replicate 32 0) = MAGIC_WORD"
    by (simp add: MAGIC_WORD_def)
  have b: "HEADER_LEN \<le> length (MAGIC_WORD @ replicate 32 (0::byte))"
    by (simp add: MAGIC_WORD_def HEADER_LEN_def)
  have c: "le_nat (py_slice (MAGIC_WORD @ replicate 32 0) 12 16) = 0"
    by (simp add: MAGIC_WORD_def py_slice_def le_nat_zeros)
  from zero_length_header_no_progress [OF a b c, of "[]" "[[1, 2], [], MAGIC_WORD]"]
  show ?thesis by (simp add: numeral_3_eq_3)
qed

section \<open>Partial delivery\<close>

text \<open>
  Claim C10. Starting from the empty buffer, the bytes of a well-formed frame, delivered
  in any chunks (one byte at a time, with empty reads in between), make the loop extract
  exactly one frame, the frame itself: the same as when they arrive in one delivery.
\<close>

theorem partial_delivery:
  assumes "valid_frame f"
    and "concat chunks = f"
  shows "read_loop [] chunks = [f] \<and> read_loop [] [f] = [f]"
proof -
  have "40 \<le> length f"
    using assms(1) by (simp add: valid_frame_def HEADER_LEN_def)
  then have ne: "[] \<noteq> f"
    by auto
  have "read_loop [] chunks = [f]"
    using assms(2) ne by (intro partial_delivery_aux [OF assms(1)]) simp_all
  moreover have "read_loop [] [f] = [f]"
    using ne by (intro partial_delivery_aux [OF assms(1)]) simp_all
  ultimately show ?thesis by simp
qed

theorem partial_delivery_witness:
  "valid_frame (MAGIC_WORD @ [0, 0, 0, 0, 40, 0, 0, 0] @ replicate 24 0)
   \<and> read_loop [] (map (\<lambda>b. [b]) (MAGIC_WORD @ [0, 0, 0, 0, 40, 0, 0, 0] @ replicate 24 0))
       = [MAGIC_WORD @ [0, 0, 0, 0, 40, 0, 0, 0] @ replicate 24 0]"
proof -
  let ?f = "MAGIC_WORD @ [0, 0, 0, 0, 40, 0, 0, 0] @ replicate 24 (0::byte)"
  have v: "valid_frame ?f"
    by (simp add: valid_frame_def MAGIC_WORD_def HEADER_LEN_def py_slice_def)
  have c: "concat (map (\<lambda>b. [b]) ?f) = ?f"
    by (induction ?f) (simp_all add: MAGIC_WORD_def)
  from partial_delivery [OF v c] v show ?thesis by simp
qed

section \<open>Facts about the decoders and the concrete inputs\<close>

lemma record_at_0: "record_at d 0 = unpack_target (take targetSize d)"
  by (simp add: record_at_def py_slice_def)

lemma record_at_drop: "record_at (drop targetSize d) j = record_at d (Suc j)"
  by (simp add: record_at_def py_slice_def add.commute)

lemma unpack_target_None: "length d < targetSize \<Longrightarrow> unpack_target (take targetSize d) = None"
  by (simp add: unpack_target_def targetSize_def)

lemma unpack_target_wrong_length: "length d \<noteq> 112 \<Longrightarrow> unpack_target d = None"
  by (simp add: unpack_target_def)

lemma unpack_target_Some:
  "targetSize \<le> length d \<Longrightarrow> \<exists>t. unpack_target (take targetSize d) = Some t"
  by (simp add: unpack_target_def targetSize_def)

lemma parse_rows_fail:
  "k < n \<Longrightarrow> targetSize * k \<le> length d \<Longrightarrow> length d < targetSize * (k + 1) \<Longrightarrow>
   \<exists>rows. parse_rows n d acc = (False, acc @ rows)
          \<and> map Some rows = map (record_at d) [0..<k]"
proof (induction k arbitrary: n d acc)
  case 0
  then obtain m where n: "n = Suc m" by (cases n) auto
  from 0 have "unpack_target (take targetSize d) = None"
    by (intro unpack_target_None) simp
  with n show ?case by simp
next
  case (Suc k)
  then obtain m where n: "n = Suc m" and km: "k < m" by (cases n) auto
  from Suc.prems have len: "targetSize \<le> length d" by simp
  then obtain t where t: "unpack_target (take targetSize d) = Some t"
    using unpack_target_Some by blast
  have "targetSize * k \<le> length (drop targetSize d)"
    and "length (drop targetSize d) < targetSize * (k + 1)"
    using Suc.prems by simp_all
  from Suc.IH [OF km this, of "acc @ [t]"] obtain rows where
    r: "parse_rows m (drop targetSize d) (acc @ [t]) = (False, (acc @ [t]) @ rows)"
       "map Some rows = map (record_at (drop targetSize d)) [0..<k]"
    by blast
  have "map Some (t # rows) = map (record_at d) [0..<Suc k]"
    using r(2) t by (simp add: map_upt_Suc record_at_0 record_at_drop del: upt_Suc)
  moreover have "parse_rows n d acc = (False, acc @ t # rows)"
    using n t r(1) by simp
  ultimately show ?case by blast
qed


lemma f32_zero: "f32_decode 0 = Fin 0"
  by (simp add: f32_decode_def Let_def)

lemma f32_3: "f32_decode 0x40400000 = Fin 3"
  by (simp add: f32_decode_def Let_def)

lemma f32_50: "f32_decode 0x42480000 = Fin 50"
  by (simp add: f32_decode_def Let_def)

lemma f32_09: "f32_decode 0x3F666666 = Fin (7549747 / 8388608)"
  by (simp add: f32_decode_def Let_def)

lemma f32_half: "f32_decode 0x3F000000 = Fin (1 / 2)"
  by (simp add: f32_decode_def Let_def)

lemma f32_4999: "f32_decode 0x3EFFF2E5 = Fin (16773861 / 33554432)"
  by (simp add: f32_decode_def Let_def)

lemma length_example_record: "length example_record = 112"
  by (simp add: example_record_def)

lemma length_example_header: "length example_header = 40"
  by (simp add: example_header_def MAGIC_WORD_def)

lemma unpack_example_record: "unpack_target example_record = Some example_track"
  by (simp add: unpack_target_def example_record_def f32_at_def py_slice_def le_nat_zeros
      f32_zero f32_3 f32_50 f32_09 example_track_def)

lemma unpack_example_header:
  "unpack_header example_header = Some \<lparr>magic = 0x0708050603040102, version = 0,
     totalPacketLen = 160, platform = 0, frameNum = 0, timeCPUCycles = 0, numDetectedObj = 0,
     numTLVs = 1, subFrameNum = 0\<rparr>"
  by (simp add: unpack_header_def example_header_def MAGIC_WORD_def py_slice_def le_nat_zeros)

lemma rescale_example:
  "rescale_and_emit_points example_grid [example_track]
   = Some [\<lparr>pt_x = Fin (115 / 8), pt_y = Fin (115 / 12), pt_id = 7,
            pt_x_real = Fin 3, pt_y_real = Fin 50\<rparr>]"
  by (simp add: rescale_and_emit_points_def confidence_filter_def example_track_def
      example_grid_def rescale_target_def py_max_def py_min_def Let_def)

lemma parse_example_payload: "parse_track_tlv example_record 112 = (1, [example_track])"
  by (simp add: parse_track_tlv_def targetSize_def length_example_record unpack_example_record)


lemma parse_truncated_payload:
  "parse_track_tlv (example_record @ replicate 50 0) 224 = (0, [example_track])"
  by (simp add: parse_track_tlv_def targetSize_def length_example_record unpack_example_record
      unpack_target_wrong_length numeral_2_eq_2)

lemma parse_example_frame:
  "parse_standard_frame example_grid example_frame
   = [PointsReady [\<lparr>pt_x = Fin (115 / 8), pt_y = Fin (115 / 12), pt_id = 7,
            pt_x_real = Fin 3, pt_y_real = Fin 50\<rparr>]]"
  by (simp add: parse_standard_frame_def example_frame_def py_slice_def length_example_header
      unpack_example_header tlvHeaderLength_def tlv_header_decode_def dispatch_tlv_def
      length_example_record parse_example_payload rescale_example)




lemma valid_example_frame: "valid_frame example_frame"
  by (simp add: valid_frame_def example_frame_def example_header_def MAGIC_WORD_def
      HEADER_LEN_def py_slice_def length_example_record)

lemma valid_header_only_frame: "valid_frame header_only_frame"
  by (simp add: valid_frame_def header_only_frame_def MAGIC_WORD_def HEADER_LEN_def
      py_slice_def)

lemma read_loop_single_frame:
  assumes "valid_frame f"
  shows "read_loop [] [f] = [f]"
proof -
  have "40 \<le> length f"
    using assms by (simp add: valid_frame_def HEADER_LEN_def)
  then have "[] \<noteq> f" by auto
  then show ?thesis
    by (intro partial_delivery_aux [OF assms]) simp_all
qed

lemma pipeline_example:
  "read_from_serial_port example_grid [example_frame]
   = [PointsReady [\<lparr>pt_x = Fin (115 / 8), pt_y = Fin (115 / 12), pt_id = 7,
            pt_x_real = Fin 3, pt_y_real = Fin 50\<rparr>]]"
  unfolding read_from_serial_port_def read_loop_single_frame [OF valid_example_frame]
  by (simp add: parse_example_frame)

lemma create_example_grid: "create_grid init_backend example_cfg = (example_grid, GridReady 24 24)"
  by (simp add: create_grid_def init_backend_def example_cfg_def example_grid_def py_int_def
      Let_def)

lemma clamp_range:
  assumes "0 \<le> a"
  shows "\<exists>r. py_max 0 (py_min a x) = Fin r \<and> 0 \<le> r \<and> r \<le> a"
  using assms by (cases x) (auto simp add: py_max_def py_min_def)

lemma rescale_target_range:
  assumes "0 < nx self" "0 < ny self"
  shows "\<exists>gx gy. pt_x (rescale_target self t) = Fin gx \<and> pt_y (rescale_target self t) = Fin gy
          \<and> 0 \<le> gx \<and> gx \<le> real_of_int (nx self - 1)
          \<and> 0 \<le> gy \<and> gy \<le> real_of_int (ny self - 1)"
proof -
  have a: "0 \<le> real_of_int (nx self - 1)" and b: "0 \<le> real_of_int (ny self - 1)"
    using assms by simp_all
  from clamp_range [OF a] clamp_range [OF b] show ?thesis
    by (simp add: rescale_target_def Let_def) metis
qed

lemma confidence_filter_idem: "confidence_filter (confidence_filter ts) = confidence_filter ts"
  by (simp add: confidence_filter_def)

section \<open>An invalid grid request\<close>

text \<open>
  Claim C1 says that an invalid request leaves the six fields of the active configuration
  as they were. \<^verbatim>\<open>create_grid\<close> stores the four bounds of the request before it checks
  anything: here the request with cell size 0 is rejected, and yet \<open>x_min\<close> and \<open>x_max\<close>
  are now those of the rejected request, next to the old \<open>nx\<close> and \<open>ny\<close>. The same track
  is then mapped to another grid column than before (18.4 instead of 14.375).
\<close>

theorem create_grid_invalid_request_overwrites_bounds:
  "create_grid example_grid invalid_cfg
     = (\<lparr>x_min = -5, x_max = 5, y_min = 0, y_max = 120, nx = 24, ny = 24\<rparr>, InvalidCellSize)
   \<and> fst (create_grid example_grid invalid_cfg) \<noteq> example_grid
   \<and> pt_x (rescale_target example_grid example_track) = Fin (115 / 8)
   \<and> pt_x (rescale_target (fst (create_grid example_grid invalid_cfg)) example_track)
       = Fin (92 / 5)"
  by (simp add: create_grid_def example_grid_def invalid_cfg_def Let_def rescale_target_def
      example_track_def py_max_def py_min_def)

section \<open>A false marker before a frame\<close>

text \<open>
  Claim C2 says that a stream with the marker pattern among its payload bytes, followed by
  a well-formed frame, yields that frame in the end. Here the 40 bytes of
  \<open>false_marker_block\<close> arrive before \<open>header_only_frame\<close>. The loop takes the block for
  a header, reads 44 as its \<^verbatim>\<open>totalPacketLen\<close> and extracts 44 bytes: the block and the
  first half of the marker of the frame. What is left holds no marker, so however many
  passes follow, the well-formed frame is never extracted.
\<close>

theorem false_marker_swallows_valid_frame:
  "valid_frame header_only_frame
   \<and> read_loop [] ((false_marker_block @ header_only_frame) # replicate n [])
       = [false_marker_block @ take 4 header_only_frame]
   \<and> header_only_frame
       \<notin> set (read_loop [] ((false_marker_block @ header_only_frame) # replicate n []))"
proof -
  let ?b = "false_marker_block @ header_only_frame"
  have m: "take 8 ?b = MAGIC_WORD"
    by (simp add: false_marker_block_def MAGIC_WORD_def)
  have l: "le_nat (py_slice ?b 12 16) = 44"
    by (simp add: false_marker_block_def MAGIC_WORD_def py_slice_def)
  have n: "length ?b = 80"
    by (simp add: false_marker_block_def header_only_frame_def MAGIC_WORD_def)
  have s: "sync_iter ?b = (drop 44 ?b, Extracted (take 44 ?b))"
    using l n by (simp add: sync_iter_at_marker [OF m])
  have t: "take 44 ?b = false_marker_block @ take 4 header_only_frame"
    by (simp add: false_marker_block_def MAGIC_WORD_def)
  have d: "drop 44 ?b = [0x06, 0x05, 0x08, 0x07, 0, 0, 0, 0, 40, 0, 0, 0] @ replicate 24 0"
    by (simp add: false_marker_block_def header_only_frame_def MAGIC_WORD_def)
  have f: "find_bytes MAGIC_WORD (drop 44 ?b) = None"
    unfolding d MAGIC_WORD_def by (rule find_bytes_first_byte_absent) simp
  have "length (drop 44 ?b) = 36"
    by (simp only: length_drop n)
  then have "length (drop 44 ?b) \<le> 1024"
    by simp
  from read_loop_idle [OF f this, of "replicate n []"]
  have "read_loop (drop 44 ?b) (replicate n []) = []"
    by simp
  with s t have r: "read_loop [] (?b # replicate n [])
      = [false_marker_block @ take 4 header_only_frame]"
    by simp
  have "header_only_frame \<noteq> false_marker_block @ take 4 header_only_frame"
    by (simp add: false_marker_block_def header_only_frame_def MAGIC_WORD_def)
  with r valid_header_only_frame show ?thesis by simp
qed

section \<open>A TLV longer than the frame\<close>




section \<open>A track payload that ends inside a record\<close>

text \<open>
  Claim C4 says that when record \<open>k\<close> cannot be decoded, the decoder returns the \<open>k\<close>
  records before it and reports \<open>k\<close>. With one whole record followed by 50 bytes, under a
  declared length of 224 (two records), the decoder reports 0, not 1, and the dispatcher
  emits nothing for the TLV.
\<close>

theorem track_decoder_failure_count_not_k:
  "parse_track_tlv (example_record @ replicate 50 0) 224 = (0, [example_track])
   \<and> fst (parse_track_tlv (example_record @ replicate 50 0) 224) \<noteq> 1
   \<and> dispatch_tlv example_grid 1010 (example_record @ replicate 50 0) 224 = []"
  by (simp add: parse_truncated_payload dispatch_tlv_def)

text \<open>
  Claim C4 as amended. When record \<open>k\<close> of the \<open>tlvLength div 112\<close> expected ones cannot
  be decoded from the bytes that are left, the decoder reports 0 records; the rows it has
  written are the \<open>k\<close> records before the failure, and the dispatcher, seeing the count 0,
  forwards nothing of that TLV.
\<close>

theorem track_decoder_failure_reports_zero:
  assumes "k < tlvLength div targetSize"
    and "targetSize * k \<le> length tlvData"
    and "length tlvData < targetSize * (k + 1)"
  shows "fst (parse_track_tlv tlvData tlvLength) = 0
         \<and> map Some (snd (parse_track_tlv tlvData tlvLength)) = map (record_at tlvData) [0..<k]
         \<and> dispatch_tlv self 1010 tlvData tlvLength = []"
proof -
  from parse_rows_fail [OF assms, of "[]"] obtain rows where
    r: "parse_rows (tlvLength div targetSize) tlvData [] = (False, rows)"
       "map Some rows = map (record_at tlvData) [0..<k]"
    by auto
  then have "parse_track_tlv tlvData tlvLength = (0, rows)"
    by (simp add: parse_track_tlv_def)
  with r(2) show ?thesis
    by (simp add: dispatch_tlv_def)
qed

theorem track_decoder_failure_reports_zero_witness:
  "(1::nat) < 224 div targetSize
   \<and> targetSize * 1 \<le> length (example_record @ replicate 50 0)
   \<and> length (example_record @ replicate 50 0) < targetSize * (1 + 1)
   \<and> fst (parse_track_tlv (example_record @ replicate 50 0) 224) = 0
   \<and> map Some (snd (parse_track_tlv (example_record @ replicate 50 0) 224))
       = map (record_at (example_record @ replicate 50 0)) [0..<1]
   \<and> dispatch_tlv example_grid 1010 (example_record @ replicate 50 0) 224 = []"
proof -
  have a: "(1::nat) < 224 div targetSize"
    by (simp add: targetSize_def)
  have b: "targetSize * 1 \<le> length (example_record @ replicate 50 0)"
    by (simp add: targetSize_def length_example_record)
  have c: "length (example_record @ replicate 50 0) < targetSize * (1 + 1)"
    by (simp add: targetSize_def length_example_record)
  from track_decoder_failure_reports_zero [OF a b c, of example_grid] a b c
  show ?thesis by blast
qed

section \<open>The end-to-end example\<close>

text \<open>
  Claim C5 gives the example of the specification: one frame with one track TLV holding
  the record with id 7, \<open>posX = 3.0\<close>, \<open>posY = 50.0\<close> and confidence 0.9, under the grid
  \<open>[-12, 12] \<times> [0, 120]\<close> with cells of 1 by 5, is said to give \<open>gridX\<close> about 17.26 and
  \<open>gridY\<close> about 9.59. The pipeline emits no point within 0.01 of these: \<open>gridX\<close> is
  \<open>(3 + 12) / 24 * 23 = 14.375\<close>.
\<close>

theorem end_to_end_example_not_17_26:
  "\<not> (\<exists>p gx gy.
        read_from_serial_port (fst (create_grid init_backend example_cfg)) [example_frame]
          = [PointsReady [p]]
        \<and> pt_id p = 7
        \<and> pt_x p = Fin gx \<and> \<bar>gx - 1726 / 100\<bar> \<le> 1 / 100
        \<and> pt_y p = Fin gy \<and> \<bar>gy - 959 / 100\<bar> \<le> 1 / 100
        \<and> pt_x_real p = Fin 3 \<and> pt_y_real p = Fin 50)"
proof
  assume "\<exists>p gx gy.
        read_from_serial_port (fst (create_grid init_backend example_cfg)) [example_frame]
          = [PointsReady [p]]
        \<and> pt_id p = 7
        \<and> pt_x p = Fin gx \<and> \<bar>gx - 1726 / 100\<bar> \<le> 1 / 100
        \<and> pt_y p = Fin gy \<and> \<bar>gy - 959 / 100\<bar> \<le> 1 / 100
        \<and> pt_x_real p = Fin 3 \<and> pt_y_real p = Fin 50"
  then obtain p gx where
    e: "read_from_serial_port (fst (create_grid init_backend example_cfg)) [example_frame]
          = [PointsReady [p]]"
    and x: "pt_x p = Fin gx" and near: "\<bar>gx - 1726 / 100\<bar> \<le> 1 / 100"
    by blast
  from e have "pt_x p = Fin (115 / 8)"
    by (auto simp add: create_example_grid pipeline_example)
  with x have "gx = 115 / 8"
    by simp
  with near show False
    by simp
qed

text \<open>
  Claim C5 as amended. The request is accepted with \<open>nx = 24\<close> and \<open>ny = 24\<close>, and the
  pipeline emits exactly one batch of one point: id 7, \<open>gridX = 14.375\<close> (115/8),
  \<open>gridY = 115/12\<close> (about 9.58), real position \<open>(3.0, 50.0)\<close>.
\<close>

theorem end_to_end_example:
  "create_grid init_backend example_cfg = (example_grid, GridReady 24 24)
   \<and> nx example_grid = 24 \<and> ny example_grid = 24
   \<and> read_from_serial_port (fst (create_grid init_backend example_cfg)) [example_frame]
       = [PointsReady [\<lparr>pt_x = Fin (115 / 8), pt_y = Fin (115 / 12), pt_id = 7,
                         pt_x_real = Fin 3, pt_y_real = Fin 50\<rparr>]]"
  by (simp add: create_example_grid pipeline_example) (simp add: example_grid_def)

section \<open>The confidence filter\<close>

text \<open>
  Claim C8. Under an active grid (\<open>nx\<close> and \<open>ny\<close> not 0), what
  \<^verbatim>\<open>rescale_and_emit_points\<close> emits is the mapping of exactly the tracks whose confidence
  compares \<open>\<ge> 0.5\<close> (for a finite confidence \<open>c\<close>: \<open>1/2 \<le> c\<close>), in their order, and
  it emits nothing when no track passes; the tracks that fail are dropped before the
  mapping, so the output for a list is the output for the filtered list. A track whose
  confidence is the single 0.5 (\<open>0x3F000000\<close>) is kept and mapped; one whose confidence is
  the single nearest to 0.4999 (\<open>0x3EFFF2E5\<close>) is dropped and nothing is emitted for it.
\<close>

theorem confidence_filter_threshold:
  assumes "nx self \<noteq> 0" and "ny self \<noteq> 0"
  shows "rescale_and_emit_points self targets
           = (if filter (\<lambda>t. fge (confidence t) (1 / 2)) targets = [] then None
              else Some (map (rescale_target self)
                     (filter (\<lambda>t. fge (confidence t) (1 / 2)) targets)))
   \<and> fge (Fin c) (1 / 2) = (1 / 2 \<le> c)
   \<and> rescale_and_emit_points self [t\<lparr>confidence := f32_decode 0x3F000000\<rparr>]
       = Some [rescale_target self (t\<lparr>confidence := f32_decode 0x3F000000\<rparr>)]
   \<and> rescale_and_emit_points self [t\<lparr>confidence := f32_decode 0x3EFFF2E5\<rparr>] = None
   \<and> (t \<in> set (confidence_filter targets)
        \<longleftrightarrow> t \<in> set targets \<and> fge (confidence t) (1 / 2))
   \<and> rescale_and_emit_points self targets
       = rescale_and_emit_points self (confidence_filter targets)
   \<and> confidence_filter [t\<lparr>confidence := f32_decode 0x3F000000\<rparr>]
       = [t\<lparr>confidence := f32_decode 0x3F000000\<rparr>]
   \<and> confidence_filter [t\<lparr>confidence := f32_decode 0x3EFFF2E5\<rparr>] = []"
proof -
  have e: "rescale_and_emit_points self ts
      = (if filter (\<lambda>t. fge (confidence t) (1 / 2)) ts = [] then None
         else Some (map (rescale_target self) (filter (\<lambda>t. fge (confidence t) (1 / 2)) ts)))"
    for ts
    using assms by (cases ts) (simp_all add: rescale_and_emit_points_def confidence_filter_def)
  have k: "rescale_and_emit_points self [t\<lparr>confidence := f32_decode 0x3F000000\<rparr>]
      = Some [rescale_target self (t\<lparr>confidence := f32_decode 0x3F000000\<rparr>)]"
    by (simp add: e f32_half)
  have r: "rescale_and_emit_points self [t\<lparr>confidence := f32_decode 0x3EFFF2E5\<rparr>] = None"
    by (simp add: e f32_4999)
  have a: "t \<in> set (confidence_filter targets) \<longleftrightarrow> t \<in> set targets \<and> fge (confidence t) (1 / 2)"
    by (simp add: confidence_filter_def)
  have b: "rescale_and_emit_points self targets
      = rescale_and_emit_points self (confidence_filter targets)"
    by (simp add: rescale_and_emit_points_def confidence_filter_idem Let_def)
       (simp add: confidence_filter_def)
  have c: "confidence_filter [t\<lparr>confidence := f32_decode 0x3F000000\<rparr>]
      = [t\<lparr>confidence := f32_decode 0x3F000000\<rparr>]"
    by (simp add: confidence_filter_def f32_half)
  have d: "confidence_filter [t\<lparr>confidence := f32_decode 0x3EFFF2E5\<rparr>] = []"
    by (simp add: confidence_filter_def f32_4999)
  have f: "fge (Fin c) (1 / 2) = (1 / 2 \<le> c)"
    by simp
  from e [of targets] f k r a b c d show ?thesis
    by blast
qed

theorem confidence_filter_threshold_witness:
  "nx example_grid \<noteq> 0 \<and> ny example_grid \<noteq> 0
   \<and> rescale_and_emit_points example_grid
        [example_track\<lparr>confidence := f32_decode 0x3F000000\<rparr>]
       = Some [rescale_target example_grid
                 (example_track\<lparr>confidence := f32_decode 0x3F000000\<rparr>)]
   \<and> rescale_and_emit_points example_grid
        [example_track\<lparr>confidence := f32_decode 0x3EFFF2E5\<rparr>] = None"
proof -
  have a: "nx example_grid \<noteq> 0" and b: "ny example_grid \<noteq> 0"
    by (simp_all add: example_grid_def)
  from confidence_filter_threshold [OF a b, of "[]" 0 example_track] a b
  show ?thesis by blast
qed

section \<open>The clamp\<close>

text \<open>
  Claim C9. Under any state with \<open>nx > 0\<close> and \<open>ny > 0\<close>, every emitted point has finite
  grid coordinates with \<open>0 \<le> gridX \<le> nx - 1\<close> and \<open>0 \<le> gridY \<le> ny - 1\<close>, so below
  \<open>nx\<close> and \<open>ny\<close>, wherever the real position lies (also for an infinite or NaN position,
  and for bounds that make the division a division by zero).
\<close>

theorem grid_coordinates_clamped:
  assumes "0 < nx self" and "0 < ny self"
    and "rescale_and_emit_points self targets = Some points"
    and "p \<in> set points"
  shows "\<exists>gx gy. pt_x p = Fin gx \<and> pt_y p = Fin gy
          \<and> 0 \<le> gx \<and> gx \<le> real_of_int (nx self - 1) \<and> gx < real_of_int (nx self)
          \<and> 0 \<le> gy \<and> gy \<le> real_of_int (ny self - 1) \<and> gy < real_of_int (ny self)"
proof -
  from assms(3) have "points = map (rescale_target self) (confidence_filter targets)"
    by (auto simp add: rescale_and_emit_points_def Let_def split: if_splits)
  with assms(4) obtain t where p: "p = rescale_target self t" by auto
  from rescale_target_range [OF assms(1,2), of t] obtain gx gy where
    g: "pt_x p = Fin gx" "pt_y p = Fin gy" "0 \<le> gx" "gx \<le> real_of_int (nx self - 1)"
       "0 \<le> gy" "gy \<le> real_of_int (ny self - 1)"
    unfolding p by blast
  then have "gx < real_of_int (nx self)" "gy < real_of_int (ny self)" by simp_all
  with g show ?thesis by blast
qed

theorem grid_coordinates_clamped_witness:
  "rescale_and_emit_points example_grid [example_track\<lparr>posX := Fin 100, posY := Fin (- 20)\<rparr>]
     = Some [\<lparr>pt_x = Fin 23, pt_y = Fin 0, pt_id = 7,
               pt_x_real = Fin 100, pt_y_real = Fin (- 20)\<rparr>]
   \<and> (\<exists>gx gy. Fin 23 = Fin gx \<and> Fin 0 = Fin gy
          \<and> 0 \<le> gx \<and> gx \<le> real_of_int (nx example_grid - 1)
          \<and> gx < real_of_int (nx example_grid)
          \<and> 0 \<le> gy \<and> gy \<le> real_of_int (ny example_grid - 1)
          \<and> gy < real_of_int (ny example_grid))"
proof -
  let ?p = "\<lparr>pt_x = Fin 23, pt_y = Fin 0, pt_id = 7,
             pt_x_real = Fin 100, pt_y_real = Fin (- 20)\<rparr>"
  have a: "0 < nx example_grid" and b: "0 < ny example_grid"
    by (simp_all add: example_grid_def)
  have c: "rescale_and_emit_points example_grid
      [example_track\<lparr>posX := Fin 100, posY := Fin (- 20)\<rparr>] = Some [?p]"
    by (simp add: rescale_and_emit_points_def confidence_filter_def example_track_def
        example_grid_def rescale_target_def py_max_def py_min_def Let_def)
  have d: "?p \<in> set [?p]" by simp
  from grid_coordinates_clamped [OF a b c d] c show ?thesis by simp
qed

end
